theory Spec2Isabelle
  imports Complex_Main "HOL-Library.AList"
begin

section \<open>Data model of \<open>agent_tools/ib_paper_trading.py\<close>\<close>

text \<open>
  The tool keeps, per trading identity (the configuration value \<open>SIGNATURE\<close>), a file
  \<open>position.jsonl\<close> of trade records, and talks to the Interactive Brokers gateway
  through an \<open>IB\<close> session. Python dictionaries keep their insertion order, so a position is
  an association list; \<open>d[k] = v\<close> is \<open>AList.update\<close> (replace in place, or append), and
  \<open>d.get(k, default)\<close> is \<open>dict_get\<close>. Python's numbers (share counts, prices, cash) are
  modelled as exact reals: rounding of binary floating point is not part of the model.
\<close>

type_synonym position = "(string \<times> real) list"

definition dict_get :: "position \<Rightarrow> string \<Rightarrow> real \<Rightarrow> real" where
  "dict_get d k dflt = (case map_of d k of None \<Rightarrow> dflt | Some v \<Rightarrow> v)"

definition dict_contains :: "position \<Rightarrow> string \<Rightarrow> bool" where
  "dict_contains d k = (case map_of d k of None \<Rightarrow> False | Some v \<Rightarrow> True)"

text \<open>What a call into code outside this module gives back: a value, or an exception
  with its text.\<close>

datatype 'a outcome = Returns 'a | Raises string

text \<open>The exception that \<open>buy\<close> and \<open>sell\<close> let escape to their caller.\<close>

datatype exn = ValueError string

text \<open>The \<open>trade\<close> object of the gateway as \<open>_execute_ib_order\<close> reads it after its wait:
  \<open>trade.orderStatus.status\<close>, \<open>.avgFillPrice\<close>, \<open>.commission\<close> and \<open>trade.order.orderId\<close>.\<close>

record trade =
  trade_status :: string
  trade_avgFillPrice :: real
  trade_commission :: real
  trade_orderId :: int

text \<open>The three dictionaries that \<open>_execute_ib_order\<close> returns.\<close>

datatype exec_result =
    ExecSuccess int string string int string real real
      \<comment> \<open>success = True: order_id, symbol, action, quantity, status, fill_price, commission\<close>
  | ExecNotFilled string int
      \<comment> \<open>success = False: the status of the unfilled order, order_id\<close>
  | ExecException string
      \<comment> \<open>success = False: error = str(e)\<close>

fun get_success :: "exec_result \<Rightarrow> bool" where
  "get_success (ExecSuccess oid sy act q st fp c) = True"
| "get_success (ExecNotFilled st oid) = False"
| "get_success (ExecException e) = False"

text \<open>\<open>execution_result.get("fill_price", default)\<close>: the default is taken only when the
  key is absent from the dictionary.\<close>

fun get_fill_price :: "exec_result \<Rightarrow> real \<Rightarrow> real" where
  "get_fill_price (ExecSuccess oid sy act q st fp c) dflt = fp"
| "get_fill_price (ExecNotFilled st oid) dflt = dflt"
| "get_fill_price (ExecException e) dflt = dflt"

fun get_commission :: "exec_result \<Rightarrow> real \<Rightarrow> real" where
  "get_commission (ExecSuccess oid sy act q st fp c) dflt = c"
| "get_commission (ExecNotFilled st oid) dflt = dflt"
| "get_commission (ExecException e) dflt = dflt"

fun get_order_id :: "exec_result \<Rightarrow> int option" where
  "get_order_id (ExecSuccess oid sy act q st fp c) = Some oid"
| "get_order_id (ExecNotFilled st oid) = Some oid"
| "get_order_id (ExecException e) = None"

text \<open>\<open>execution_result.get('error')\<close>; the text of the unfilled order is
  \<open>"Order not filled. Status: " + status\<close>.\<close>

fun get_error :: "exec_result \<Rightarrow> string option" where
  "get_error (ExecSuccess oid sy act q st fp c) = None"
| "get_error (ExecNotFilled st oid) = Some (''Order not filled. Status: '' @ st)"
| "get_error (ExecException e) = Some e"

text \<open>One line of \<open>position.jsonl\<close>.\<close>

record this_action =
  ta_action :: string
  ta_symbol :: string
  ta_amount :: int
  ta_ib_order_id :: "int option"
  ta_fill_price :: real
  ta_commission :: real

record trade_record =
  rec_date :: "string option"
  rec_id :: int
  rec_this_action :: this_action
  rec_positions :: position
  rec_ib_execution :: exec_result

text \<open>The dictionaries that \<open>buy\<close> and \<open>sell\<close> return. An error dictionary has the key
  \<open>error\<close>, the symbol and the date, and for some errors more keys; the text of each
  error is given beside its constructor.\<close>

datatype error_body =
    AmountMustBePositive
      \<comment> \<open>"Amount must be positive"\<close>
  | FailedToConnect string
      \<comment> \<open>\<open>str(e)\<close>, the text of the ConnectionError\<close>
  | SymbolNotFound
      \<comment> \<open>"Symbol ... not found in price data"\<close>
  | InsufficientCash real real
      \<comment> \<open>"Insufficient cash (local record)", required_cash, cash_available\<close>
  | NoPosition
      \<comment> \<open>"No position for ..."\<close>
  | InsufficientSharesLocal real int
      \<comment> \<open>"Insufficient shares (local record)", have, want_to_sell\<close>
  | InsufficientSharesIB int int
      \<comment> \<open>"Insufficient shares in IB account", ib_position, want_to_sell\<close>
  | OrderFailed "string option" exec_result
      \<comment> \<open>"IB order failed: " and execution_result.get('error'), execution_details\<close>
  | UnexpectedError string
      \<comment> \<open>"Unexpected error: " and str(e)\<close>

datatype tool_result =
    ErrorResult error_body string "string option"
      \<comment> \<open>the error, symbol, date\<close>
  | Updated position exec_result real
      \<comment> \<open>the new position's entries, execution_details, actual_price\<close>

text \<open>The key \<open>execution_details\<close> of a returned dictionary, when it has one.\<close>

fun execution_details :: "tool_result \<Rightarrow> exec_result option" where
  "execution_details (Updated p er ap) = Some er"
| "execution_details (ErrorResult (OrderFailed e er) sy d) = Some er"
| "execution_details (ErrorResult b sy d) = None"

section \<open>The world outside the module\<close>

text \<open>
  What the module does to its surroundings is recorded in a \<open>world\<close>: the position file of
  every identity, the \<open>IF_TRADE\<close> flag, and the sequence of calls made to the gateway, to
  the lock and to the position files.
\<close>

datatype event =
    ConnectOk
  | ConnectFail
  | Disconnect
  | OrderRequest string int string
      \<comment> \<open>\<open>qualifyContracts\<close> and \<open>placeOrder\<close> for symbol, quantity, action\<close>
  | QueryPositions
  | QueryAccountValues
  | LockAcquire string
  | LockRelease string
  | ReadLatest string
  | AppendRecord string

record world =
  files :: "string \<Rightarrow> trade_record list"
  if_trade :: bool
  trace :: "event list"

definition log_event :: "event \<Rightarrow> world \<Rightarrow> world" where
  "log_event e w = w\<lparr>trace := trace w @ [e]\<rparr>"

fun is_gateway_event :: "event \<Rightarrow> bool" where
  "is_gateway_event ConnectOk = True"
| "is_gateway_event ConnectFail = True"
| "is_gateway_event Disconnect = True"
| "is_gateway_event (OrderRequest sy q act) = True"
| "is_gateway_event QueryPositions = True"
| "is_gateway_event QueryAccountValues = True"
| "is_gateway_event (LockAcquire s) = False"
| "is_gateway_event (LockRelease s) = False"
| "is_gateway_event (ReadLatest s) = False"
| "is_gateway_event (AppendRecord s) = False"

text \<open>
  What the surroundings answer during one request. \<open>get_config_value\<close>,
  \<open>get_open_prices\<close>, \<open>write_config_value\<close> and the \<open>ib_insync\<close> session are imported by
  the module; their answers are inputs of the model. A price lookup gives a number, or
  fails at the subscript with a KeyError, or raises something else.
\<close>

datatype price_lookup = Price real | PriceKeyError | PriceRaises string

text \<open>One entry of \<open>ib.positions()\<close>: \<open>contract.symbol\<close> when the contract has the
  attribute, \<open>position\<close>, and the three fields that the account summary reads (\<open>None\<close>
  when the field is Python's None).\<close>

record ib_pos =
  pos_symbol :: "string option"
  pos_position :: real
  pos_marketPrice :: "real option"
  pos_marketValue :: "real option"
  pos_avgCost :: "real option"

text \<open>One entry of \<open>ib.accountValues()\<close>: its tag, and \<open>float(value.value)\<close>, which is
  \<open>None\<close> when the conversion raises.\<close>

record account_value =
  av_tag :: string
  av_value :: "real option"

record env =
  cfg_signature :: "string option"
  cfg_today_date :: "string option"
  ib_connect :: "string option"
    \<comment> \<open>\<open>None\<close>: \<open>ib.connect\<close> returns; \<open>Some e\<close>: it raises \<open>e\<close>\<close>
  open_price :: price_lookup
  ib_positions :: "ib_pos list outcome"
  ib_order :: "trade outcome"
    \<comment> \<open>\<open>Raises\<close>: an exception anywhere in the \<open>try\<close> of \<open>_execute_ib_order\<close>\<close>
  ledger_open :: "string option"
    \<comment> \<open>\<open>Some e\<close>: opening the position file for append raises \<open>e\<close>\<close>
  config_write :: "string option"
    \<comment> \<open>\<open>Some e\<close>: \<open>write_config_value\<close> raises \<open>e\<close>\<close>
  ib_account_values :: "account_value list outcome"
  clock_now :: string
    \<comment> \<open>\<open>datetime.now().isoformat()\<close>\<close>

text \<open>
  \<open>get_latest_position(today_date, signature)\<close> is imported from \<open>tools.price_tools\<close>; it
  reads the position files. The model takes it as a parameter of this type.
\<close>

type_synonym latest_reader =
  "string option \<Rightarrow> string \<Rightarrow> (string \<Rightarrow> trade_record list) \<Rightarrow> (position \<times> int) outcome"

section \<open>The helpers of the module\<close>

text \<open>\<open>_position_lock\<close>: entering and leaving the \<open>with\<close> block. Creating the
  directory and the lock file is taken to succeed.\<close>

definition position_lock_enter :: "string \<Rightarrow> world \<Rightarrow> world" where
  "position_lock_enter signature w = log_event (LockAcquire signature) w"

definition position_lock_exit :: "string \<Rightarrow> world \<Rightarrow> world" where
  "position_lock_exit signature w = log_event (LockRelease signature) w"

text \<open>\<open>_connect_ib\<close>: \<open>Inl\<close> is the text of the ConnectionError that wraps the cause (the
  mark that opens the message in the source is not ASCII and is left out).
  \<open>ib.disconnect()\<close> is taken to return.\<close>

definition connect_ib :: "env \<Rightarrow> world \<Rightarrow> (string + unit) \<times> world" where
  "connect_ib en w =
     (case ib_connect en of
        None \<Rightarrow> (Inr (), log_event ConnectOk w)
      | Some e \<Rightarrow> (Inl (''Failed to connect to IB: '' @ e), log_event ConnectFail w))"

definition disconnect :: "world \<Rightarrow> world" where
  "disconnect w = log_event Disconnect w"

text \<open>Python's \<open>int(x)\<close> on a float truncates towards zero.\<close>

definition py_int :: "real \<Rightarrow> int" where
  "py_int x = (if 0 \<le> x then \<lfloor>x\<rfloor> else \<lceil>x\<rceil>)"

text \<open>\<open>_get_ib_position\<close>: the first entry whose contract has the symbol, else 0.\<close>

fun find_ib_position :: "ib_pos list \<Rightarrow> string \<Rightarrow> int" where
  "find_ib_position [] symbol = 0"
| "find_ib_position (p # ps) symbol =
     (if pos_symbol p = Some symbol then py_int (pos_position p)
      else find_ib_position ps symbol)"

definition get_ib_position :: "env \<Rightarrow> string \<Rightarrow> world \<Rightarrow> int outcome \<times> world" where
  "get_ib_position en symbol w =
     (case ib_positions en of
        Raises e \<Rightarrow> (Raises e, log_event QueryPositions w)
      | Returns ps \<Rightarrow> (Returns (find_ib_position ps symbol), log_event QueryPositions w))"

text \<open>\<open>_execute_ib_order\<close>.\<close>

definition execute_ib_order ::
  "env \<Rightarrow> string \<Rightarrow> int \<Rightarrow> string \<Rightarrow> world \<Rightarrow> exec_result \<times> world" where
  "execute_ib_order en symbol quantity action w =
     (let w1 = log_event (OrderRequest symbol quantity action) w in
      case ib_order en of
        Raises e \<Rightarrow> (ExecException e, w1)
      | Returns t \<Rightarrow>
          if trade_status t \<in> set [''Filled'', ''PreSubmitted'', ''Submitted''] then
            (let fill_price = (if trade_avgFillPrice t > 0 then trade_avgFillPrice t else 0)
             in (ExecSuccess (trade_orderId t) symbol action quantity (trade_status t)
                   fill_price (trade_commission t), w1))
          else (ExecNotFilled (trade_status t) (trade_orderId t), w1))"

text \<open>Reading the latest position under the lock (the first \<open>with\<close> block of \<open>buy\<close> and
  of \<open>sell\<close>). The lock is released when the block is left, also by an exception.\<close>

definition read_latest ::
  "latest_reader \<Rightarrow> env \<Rightarrow> string \<Rightarrow> world \<Rightarrow> (position \<times> int) outcome \<times> world" where
  "read_latest glp en signature w =
     (let w1 = log_event (ReadLatest signature) (position_lock_enter signature w)
      in (glp (cfg_today_date en) signature (files w1), position_lock_exit signature w1))"

text \<open>Appending one record under the lock (the second \<open>with\<close> block). \<open>Some e\<close> is the
  exception raised when the file cannot be opened; nothing is written then.\<close>

definition append_record ::
  "env \<Rightarrow> string \<Rightarrow> trade_record \<Rightarrow> world \<Rightarrow> string option \<times> world" where
  "append_record en signature r w =
     (let w1 = position_lock_enter signature w in
      case ledger_open en of
        Some e \<Rightarrow> (Some e, position_lock_exit signature w1)
      | None \<Rightarrow>
          (None, position_lock_exit signature
             (log_event (AppendRecord signature)
                (w1\<lparr>files := (files w1)(signature := files w1 signature @ [r])\<rparr>))))"

text \<open>\<open>write_config_value("IF_TRADE", True)\<close>.\<close>

definition write_if_trade :: "env \<Rightarrow> world \<Rightarrow> string option \<times> world" where
  "write_if_trade en w =
     (case config_write en of
        Some e \<Rightarrow> (Some e, w)
      | None \<Rightarrow> (None, w\<lparr>if_trade := True\<rparr>))"

text \<open>The handler \<open>except Exception as e\<close> of \<open>buy\<close> and \<open>sell\<close>.\<close>

definition unexpected ::
  "string \<Rightarrow> string \<Rightarrow> string option \<Rightarrow> world \<Rightarrow> tool_result \<times> world" where
  "unexpected e symbol today_date w =
     (ErrorResult (UnexpectedError e) symbol today_date, disconnect w)"

section \<open>\<open>buy\<close>\<close>

text \<open>The last part of \<open>buy\<close>: writing the record, the flag, and the return.\<close>

definition commit ::
  "env \<Rightarrow> string \<Rightarrow> string \<Rightarrow> string \<Rightarrow> int \<Rightarrow> int \<Rightarrow> position \<Rightarrow> exec_result \<Rightarrow> real
     \<Rightarrow> world \<Rightarrow> tool_result \<times> world" where
  "commit en signature act symbol amount current_action_id new_position execution_result
      actual_price w =
     (let today_date = cfg_today_date en;
          r = \<lparr>rec_date = today_date,
               rec_id = current_action_id + 1,
               rec_this_action =
                 \<lparr>ta_action = act, ta_symbol = symbol, ta_amount = amount,
                  ta_ib_order_id = get_order_id execution_result,
                  ta_fill_price = actual_price,
                  ta_commission = get_commission execution_result 0\<rparr>,
               rec_positions = new_position,
               rec_ib_execution = execution_result\<rparr>
      in case append_record en signature r w of
           (Some e, w1) \<Rightarrow> unexpected e symbol today_date w1
         | (None, w1) \<Rightarrow>
             (case write_if_trade en w1 of
                (Some e, w2) \<Rightarrow> unexpected e symbol today_date w2
              | (None, w2) \<Rightarrow>
                  (Updated new_position execution_result actual_price, disconnect w2)))"

text \<open>\<open>buy\<close> from the price lookup on, with the position and the id that were read.\<close>

definition buy_settle ::
  "env \<Rightarrow> string \<Rightarrow> string \<Rightarrow> int \<Rightarrow> position \<Rightarrow> int \<Rightarrow> world \<Rightarrow> tool_result \<times> world" where
  "buy_settle en signature symbol amount current_position current_action_id w =
     (let today_date = cfg_today_date en in
      case open_price en of
        PriceKeyError \<Rightarrow> (ErrorResult SymbolNotFound symbol today_date, disconnect w)
      | PriceRaises e \<Rightarrow> unexpected e symbol today_date w
      | Price this_symbol_price \<Rightarrow>
          (let required_cash = this_symbol_price * of_int amount in
           if dict_get current_position ''CASH'' 0 < required_cash then
             (ErrorResult
                (InsufficientCash required_cash (dict_get current_position ''CASH'' 0))
                symbol today_date, disconnect w)
           else
             (case execute_ib_order en symbol amount ''BUY'' w of
                (execution_result, w1) \<Rightarrow>
                  if \<not> get_success execution_result then
                    (ErrorResult (OrderFailed (get_error execution_result) execution_result)
                       symbol today_date, disconnect w1)
                  else
                    (let actual_price = get_fill_price execution_result this_symbol_price;
                         actual_cost = actual_price * of_int amount;
                         new_position1 =
                           AList.update ''CASH''
                             (dict_get current_position ''CASH'' 0 - actual_cost)
                             current_position;
                         new_position =
                           AList.update symbol
                             (dict_get new_position1 symbol 0 + of_int amount)
                             new_position1
                     in commit en signature ''buy'' symbol amount current_action_id
                          new_position execution_result actual_price w1))))"

text \<open>The \<open>try\<close> block of \<open>buy\<close>, entered with an open session.\<close>

definition buy_try ::
  "latest_reader \<Rightarrow> env \<Rightarrow> string \<Rightarrow> string \<Rightarrow> int \<Rightarrow> world \<Rightarrow> tool_result \<times> world" where
  "buy_try glp en signature symbol amount w =
     (case read_latest glp en signature w of
        (Raises e, w1) \<Rightarrow> unexpected e symbol (cfg_today_date en) w1
      | (Returns (current_position, current_action_id), w1) \<Rightarrow>
          buy_settle en signature symbol amount current_position current_action_id w1)"

text \<open>\<open>buy\<close> up to the connection: \<open>Inl\<close> is what the call already returns or raises,
  \<open>Inr\<close> the signature, with the session open.\<close>

definition prepare ::
  "env \<Rightarrow> string \<Rightarrow> int \<Rightarrow> world \<Rightarrow> ((exn + tool_result) + string) \<times> world" where
  "prepare en symbol amount w =
     (case cfg_signature en of
        None \<Rightarrow> (Inl (Inl (ValueError ''SIGNATURE environment variable is not set'')), w)
      | Some signature \<Rightarrow>
          if amount \<le> 0 then
            (Inl (Inr (ErrorResult AmountMustBePositive symbol (cfg_today_date en))), w)
          else
            (case connect_ib en w of
               (Inl e, w1) \<Rightarrow>
                 (Inl (Inr (ErrorResult (FailedToConnect e) symbol (cfg_today_date en))), w1)
             | (Inr u, w1) \<Rightarrow> (Inr signature, w1)))"

definition buy ::
  "latest_reader \<Rightarrow> env \<Rightarrow> string \<Rightarrow> int \<Rightarrow> world \<Rightarrow> (exn + tool_result) \<times> world" where
  "buy glp en symbol amount w =
     (case prepare en symbol amount w of
        (Inl r, w1) \<Rightarrow> (r, w1)
      | (Inr signature, w1) \<Rightarrow>
          (case buy_try glp en signature symbol amount w1 of
             (r, w2) \<Rightarrow> (Inr r, w2)))"

section \<open>\<open>sell\<close>\<close>

text \<open>\<open>sell\<close> from the local checks on, with the position and the id that were read.
  \<open>current_position[symbol]\<close> is read only when the key is there.\<close>

definition sell_settle ::
  "env \<Rightarrow> string \<Rightarrow> string \<Rightarrow> int \<Rightarrow> position \<Rightarrow> int \<Rightarrow> world \<Rightarrow> tool_result \<times> world" where
  "sell_settle en signature symbol amount current_position current_action_id w =
     (let today_date = cfg_today_date en in
      if \<not> dict_contains current_position symbol then
        (ErrorResult NoPosition symbol today_date, disconnect w)
      else if dict_get current_position symbol 0 < of_int amount then
        (ErrorResult (InsufficientSharesLocal (dict_get current_position symbol 0) amount)
           symbol today_date, disconnect w)
      else
        (case open_price en of
           PriceKeyError \<Rightarrow> (ErrorResult SymbolNotFound symbol today_date, disconnect w)
         | PriceRaises e \<Rightarrow> unexpected e symbol today_date w
         | Price this_symbol_price \<Rightarrow>
             (case get_ib_position en symbol w of
                (Raises e, w1) \<Rightarrow> unexpected e symbol today_date w1
              | (Returns ib_position, w1) \<Rightarrow>
                  if ib_position < amount then
                    (ErrorResult (InsufficientSharesIB ib_position amount) symbol today_date,
                     disconnect w1)
                  else
                    (case execute_ib_order en symbol amount ''SELL'' w1 of
                       (execution_result, w2) \<Rightarrow>
                         if \<not> get_success execution_result then
                           (ErrorResult
                              (OrderFailed (get_error execution_result) execution_result)
                              symbol today_date, disconnect w2)
                         else
                           (let actual_price =
                                  get_fill_price execution_result this_symbol_price;
                                actual_proceeds = actual_price * of_int amount;
                                new_position1 =
                                  AList.update symbol
                                    (dict_get current_position symbol 0 - of_int amount)
                                    current_position;
                                new_position =
                                  AList.update ''CASH''
                                    (dict_get new_position1 ''CASH'' 0 + actual_proceeds)
                                    new_position1
                            in commit en signature ''sell'' symbol amount current_action_id
                                 new_position execution_result actual_price w2)))))"

definition sell_try ::
  "latest_reader \<Rightarrow> env \<Rightarrow> string \<Rightarrow> string \<Rightarrow> int \<Rightarrow> world \<Rightarrow> tool_result \<times> world" where
  "sell_try glp en signature symbol amount w =
     (case read_latest glp en signature w of
        (Raises e, w1) \<Rightarrow> unexpected e symbol (cfg_today_date en) w1
      | (Returns (current_position, current_action_id), w1) \<Rightarrow>
          sell_settle en signature symbol amount current_position current_action_id w1)"

definition sell ::
  "latest_reader \<Rightarrow> env \<Rightarrow> string \<Rightarrow> int \<Rightarrow> world \<Rightarrow> (exn + tool_result) \<times> world" where
  "sell glp en symbol amount w =
     (case prepare en symbol amount w of
        (Inl r, w1) \<Rightarrow> (r, w1)
      | (Inr signature, w1) \<Rightarrow>
          (case sell_try glp en signature symbol amount w1 of
             (r, w2) \<Rightarrow> (Inr r, w2)))"

section \<open>\<open>get_ib_account_summary\<close>\<close>

record position_entry =
  pe_symbol :: string
  pe_position :: int
  pe_market_price :: real
  pe_market_value :: real
  pe_avg_cost :: real

datatype summary_result =
    SummaryOk position "position_entry list" string
      \<comment> \<open>success = True: account_summary, positions, timestamp\<close>
  | SummaryError string
      \<comment> \<open>success = False: error\<close>

text \<open>The first loop: the four tags are kept, each value converted by \<open>float\<close>.\<close>

fun account_summary_of :: "account_value list \<Rightarrow> position \<Rightarrow> position outcome" where
  "account_summary_of [] account_summary = Returns account_summary"
| "account_summary_of (v # vs) account_summary =
     (if av_tag v \<in> set [''NetLiquidation'', ''CashBalance'', ''BuyingPower'',
                          ''GrossPositionValue''] then
        (case av_value v of
           None \<Rightarrow> Raises ''could not convert string to float''
         | Some x \<Rightarrow> account_summary_of vs (AList.update (av_tag v) x account_summary))
      else account_summary_of vs account_summary)"

text \<open>\<open>float(x) if x else 0\<close>.\<close>

definition float_or_zero :: "real option \<Rightarrow> real" where
  "float_or_zero x = (case x of None \<Rightarrow> 0 | Some v \<Rightarrow> if v \<noteq> 0 then v else 0)"

fun position_summary_of :: "ib_pos list \<Rightarrow> position_entry list" where
  "position_summary_of [] = []"
| "position_summary_of (p # ps) =
     (case pos_symbol p of
        None \<Rightarrow> position_summary_of ps
      | Some s \<Rightarrow>
          \<lparr>pe_symbol = s, pe_position = py_int (pos_position p),
           pe_market_price = float_or_zero (pos_marketPrice p),
           pe_market_value = float_or_zero (pos_marketValue p),
           pe_avg_cost = float_or_zero (pos_avgCost p)\<rparr> # position_summary_of ps)"

text \<open>The whole body is one \<open>try\<close>; its handler returns the error and does nothing else.\<close>

definition get_ib_account_summary :: "env \<Rightarrow> world \<Rightarrow> summary_result \<times> world" where
  "get_ib_account_summary en w =
     (case connect_ib en w of
        (Inl e, w1) \<Rightarrow> (SummaryError e, w1)
      | (Inr u, w1) \<Rightarrow>
          (let w2 = log_event QueryAccountValues w1 in
           case ib_account_values en of
             Raises e \<Rightarrow> (SummaryError e, w2)
           | Returns account_values \<Rightarrow>
               (case account_summary_of account_values [] of
                  Raises e \<Rightarrow> (SummaryError e, w2)
                | Returns account_summary \<Rightarrow>
                    (let w3 = log_event QueryPositions w2 in
                     case ib_positions en of
                       Raises e \<Rightarrow> (SummaryError e, w3)
                     | Returns positions \<Rightarrow>
                         (SummaryOk account_summary (position_summary_of positions)
                            (clock_now en), disconnect w3)))))"

section \<open>Requests, one after another and interleaved\<close>

datatype request = Buy string int | Sell string int

fun request_symbol :: "request \<Rightarrow> string" where
  "request_symbol (Buy symbol amount) = symbol"
| "request_symbol (Sell symbol amount) = symbol"

fun run_request ::
  "latest_reader \<Rightarrow> env \<Rightarrow> request \<Rightarrow> world \<Rightarrow> (exn + tool_result) \<times> world" where
  "run_request glp en (Buy symbol amount) w = buy glp en symbol amount w"
| "run_request glp en (Sell symbol amount) w = sell glp en symbol amount w"

text \<open>A sequence of requests, each with the answers its surroundings give it; a request
  that raises leaves the world as it found it and the next one runs.\<close>

fun run_requests :: "latest_reader \<Rightarrow> (env \<times> request) list \<Rightarrow> world \<Rightarrow> world" where
  "run_requests glp [] w = w"
| "run_requests glp ((en, rq) # rest) w = run_requests glp rest (snd (run_request glp en rq w))"

text \<open>
  Two \<open>buy\<close> requests in two processes. Each holds the lock of \<open>_position_lock\<close> while it
  reads the latest position and again while it appends, and not in between. In the
  schedule below the first request connects and reads, then the second connects and
  reads, then the first runs to its end, then the second: every section that holds the
  lock runs whole, so the lock admits the schedule.
\<close>

definition buy_begin ::
  "latest_reader \<Rightarrow> env \<Rightarrow> string \<Rightarrow> int \<Rightarrow> world
     \<Rightarrow> ((exn + tool_result) + (string \<times> (position \<times> int) outcome)) \<times> world" where
  "buy_begin glp en symbol amount w =
     (case prepare en symbol amount w of
        (Inl r, w1) \<Rightarrow> (Inl r, w1)
      | (Inr signature, w1) \<Rightarrow>
          (case read_latest glp en signature w1 of
             (rd, w2) \<Rightarrow> (Inr (signature, rd), w2)))"

definition buy_finish ::
  "env \<Rightarrow> string \<Rightarrow> int \<Rightarrow> ((exn + tool_result) + (string \<times> (position \<times> int) outcome))
     \<Rightarrow> world \<Rightarrow> (exn + tool_result) \<times> world" where
  "buy_finish en symbol amount st w =
     (case st of
        Inl r \<Rightarrow> (r, w)
      | Inr (signature, Raises e) \<Rightarrow>
          (case unexpected e symbol (cfg_today_date en) w of (r, w1) \<Rightarrow> (Inr r, w1))
      | Inr (signature, Returns (current_position, current_action_id)) \<Rightarrow>
          (case buy_settle en signature symbol amount current_position current_action_id w of
             (r, w1) \<Rightarrow> (Inr r, w1)))"

definition two_buys_interleaved ::
  "latest_reader \<Rightarrow> env \<Rightarrow> string \<Rightarrow> int \<Rightarrow> env \<Rightarrow> string \<Rightarrow> int \<Rightarrow> world
     \<Rightarrow> (exn + tool_result) \<times> (exn + tool_result) \<times> world" where
  "two_buys_interleaved glp en1 symbol1 amount1 en2 symbol2 amount2 w =
     (case buy_begin glp en1 symbol1 amount1 w of
        (st1, w1) \<Rightarrow>
          (case buy_begin glp en2 symbol2 amount2 w1 of
             (st2, w2) \<Rightarrow>
               (case buy_finish en1 symbol1 amount1 st1 w2 of
                  (r1, w3) \<Rightarrow>
                    (case buy_finish en2 symbol2 amount2 st2 w3 of
                       (r2, w4) \<Rightarrow> (r1, r2, w4)))))"

text \<open>A trace respects the locks when no lock is acquired while it is held, and none is
  released that is not held.\<close>

fun locks_respected :: "string list \<Rightarrow> event list \<Rightarrow> bool" where
  "locks_respected held [] = True"
| "locks_respected held (LockAcquire s # es) =
     (s \<notin> set held \<and> locks_respected (s # held) es)"
| "locks_respected held (LockRelease s # es) =
     (s \<in> set held \<and> locks_respected (remove1 s held) es)"
| "locks_respected held (e # es) = locks_respected held es"

section \<open>\<open>get_latest_position\<close>\<close>

text \<open>Modelled from the spec: the record of the highest \<open>sequence_id\<close> in a file, which
  \<open>readLatest\<close> looks up; the source of the lookup (\<open>get_latest_position\<close> of
  \<open>tools/price_tools.py\<close>) is missing. Of two records with the same id the later one in
  the file is taken.\<close>

fun latest_record :: "trade_record list \<Rightarrow> trade_record option" where
  "latest_record [] = None"
| "latest_record (r # rs) =
     (case latest_record rs of
        None \<Rightarrow> Some r
      | Some r' \<Rightarrow> if rec_id r' < rec_id r then Some r else Some r')"

text \<open>Modelled from the spec: \<open>get_latest_position\<close> of \<open>tools/price_tools.py\<close> is
  imported by the module and its source is missing. The specification's \<open>readLatest\<close>
  "returns the snapshot and sequence of the highest-sequence_id record; returns a
  well-defined empty state ({CASH: configured_initial_cash}, sequence_id = 0) if no
  records exist yet".\<close>

definition get_latest_position :: "real \<Rightarrow> latest_reader" where
  "get_latest_position initial_cash today_date signature fs =
     (case latest_record (fs signature) of
        None \<Rightarrow> Returns ([(''CASH'', initial_cash)], 0)
      | Some r \<Rightarrow> Returns (rec_positions r, rec_id r))"

text \<open>The ids of a file are 1, 2, ..., its length.\<close>

definition ids_consecutive :: "trade_record list \<Rightarrow> bool" where
  "ids_consecutive rs = (map rec_id rs = [1 .. int (length rs)])"

section \<open>Auxiliary notions and example inputs\<close>

text \<open>The gateway session as a trace shows it: the successful connects and the
  disconnects, in order.\<close>

definition session_events :: "event list \<Rightarrow> event list" where
  "session_events es = filter (\<lambda>e. e = ConnectOk \<or> e = Disconnect) es"

text \<open>The world \<open>w'\<close> is \<open>w\<close> with one record, of id \<open>cid + 1\<close>, appended to the file of
  \<open>sg\<close>.\<close>

definition appended :: "string \<Rightarrow> int \<Rightarrow> world \<Rightarrow> world \<Rightarrow> bool" where
  "appended sg cid w w' =
     (rec_id (last (files w' sg)) = cid + 1 \<and>
      files w' = (files w)(sg := files w sg @ [last (files w' sg)]))"

text \<open>A reader that answers with a given position and id, whatever the files hold.\<close>

definition fixed_reader :: "position \<Rightarrow> int \<Rightarrow> latest_reader" where
  "fixed_reader p n today_date signature fs = Returns (p, n)"

text \<open>An order that the gateway reports as filled at a given average price.\<close>

definition order_filled_at :: "real \<Rightarrow> trade outcome" where
  "order_filled_at p =
     Returns \<lparr>trade_status = ''Filled'', trade_avgFillPrice = p, trade_commission = 1,
              trade_orderId = 7\<rparr>"

text \<open>Surroundings in which every call succeeds: the identity is \<open>agent\<close>, the reference
  price is 50, the gateway holds 10 shares of \<open>XYZ\<close> and fills the order at 55.\<close>

definition example_env :: env where
  "example_env =
     \<lparr>cfg_signature = Some ''agent'', cfg_today_date = Some ''2025-10-01'',
      ib_connect = None, open_price = Price 50,
      ib_positions =
        Returns [\<lparr>pos_symbol = Some ''XYZ'', pos_position = 10, pos_marketPrice = None,
                  pos_marketValue = None, pos_avgCost = Some 50\<rparr>],
      ib_order = order_filled_at 55,
      ledger_open = None, config_write = None,
      ib_account_values = Returns [], clock_now = ''2025-10-01T09:30:00''\<rparr>"

definition empty_world :: world where
  "empty_world = \<lparr>files = (\<lambda>s. []), if_trade = False, trace = []\<rparr>"

section \<open>Lemmas about the steps\<close>

lemmas step_defs =
  read_latest_def append_record_def write_if_trade_def unexpected_def execute_ib_order_def
  get_ib_position_def connect_ib_def disconnect_def position_lock_enter_def
  position_lock_exit_def log_event_def

lemmas tool_defs =
  buy_def sell_def prepare_def buy_try_def sell_try_def buy_settle_def sell_settle_def
  commit_def step_defs

lemmas example_defs =
  example_env_def empty_world_def fixed_reader_def order_filled_at_def

lemma map_of_update:
  "map_of (AList.update k v al) k' = (if k' = k then Some v else map_of al k')"
  by (simp add: update_conv')

lemma prepare_Inr:
  "prepare en sy a w = (Inr sg, w1) \<Longrightarrow>
     cfg_signature en = Some sg \<and> 0 < a \<and> ib_connect en = None \<and> w1 = log_event ConnectOk w"
  by (auto simp: prepare_def connect_ib_def split: option.splits if_splits)

lemma prepare_Inl_not_updated:
  "prepare en sy a w = (Inl r, w1) \<Longrightarrow> r \<noteq> Inr (Updated p er ap)"
  by (auto simp: prepare_def connect_ib_def split: option.splits if_splits)

text \<open>The split of \<open>buy\<close> used for the interleaving is the function itself.\<close>

lemma buy_begin_finish:
  "buy glp en symbol amount w =
     (case buy_begin glp en symbol amount w of (st, w1) \<Rightarrow> buy_finish en symbol amount st w1)"
  by (auto simp: buy_def buy_begin_def buy_finish_def buy_try_def
      split: prod.splits sum.splits outcome.splits)

subsection \<open>A successful commit\<close>

lemma commit_updated:
  assumes "commit en sg act sy a cid np er ap w = (Updated p er' ap', w')"
  shows "p = np \<and> er' = er \<and> ap' = ap \<and>
         files w' = (files w)(sg := files w sg @
           [\<lparr>rec_date = cfg_today_date en, rec_id = cid + 1,
             rec_this_action = \<lparr>ta_action = act, ta_symbol = sy, ta_amount = a,
               ta_ib_order_id = get_order_id er, ta_fill_price = ap,
               ta_commission = get_commission er 0\<rparr>,
             rec_positions = np, rec_ib_execution = er\<rparr>])"
  using assms
  by (auto simp: commit_def step_defs Let_def split: option.splits)

lemma buy_settle_frame:
  assumes "buy_settle en sg sy a cur cid w = (Updated p er ap, w')"
  shows "(k \<noteq> ''CASH'' \<and> k \<noteq> sy \<longrightarrow> map_of p k = map_of cur k)
       \<and> files w' sg = files w sg @ [last (files w' sg)]
       \<and> rec_positions (last (files w' sg)) = p"
  using assms
  by (auto simp: buy_settle_def unexpected_def execute_ib_order_def log_event_def Let_def
      map_of_update split: price_lookup.splits if_splits outcome.splits
      dest!: commit_updated)

lemma sell_settle_frame:
  assumes "sell_settle en sg sy a cur cid w = (Updated p er ap, w')"
  shows "(k \<noteq> ''CASH'' \<and> k \<noteq> sy \<longrightarrow> map_of p k = map_of cur k)
       \<and> files w' sg = files w sg @ [last (files w' sg)]
       \<and> rec_positions (last (files w' sg)) = p"
  using assms
  by (auto simp: sell_settle_def unexpected_def execute_ib_order_def get_ib_position_def
      log_event_def Let_def map_of_update
      split: price_lookup.splits if_splits outcome.splits dest!: commit_updated)

section \<open>Results that do not depend on the position files\<close>

text \<open>
  C9. A \<open>buy\<close> or \<open>sell\<close> made while \<open>SIGNATURE\<close> is absent raises ValueError instead of
  returning an error dictionary, and it does so before anything else happens: the world
  (gateway calls, lock, position files, flag) is left exactly as it was.
\<close>

theorem missing_signature_raises:
  assumes "cfg_signature en = None"
  shows "buy glp en symbol amount w =
           (Inl (ValueError ''SIGNATURE environment variable is not set''), w)
       \<and> sell glp en symbol amount w =
           (Inl (ValueError ''SIGNATURE environment variable is not set''), w)"
  using assms by (simp add: buy_def sell_def prepare_def)

text \<open>The hypothesis of C9 at a concrete request: the example surroundings without the
  signature.\<close>

theorem missing_signature_raises_witness:
  "cfg_signature (example_env\<lparr>cfg_signature := None\<rparr>) = None
   \<and> buy (fixed_reader [(''CASH'', 10000)] 0) (example_env\<lparr>cfg_signature := None\<rparr>)
       ''XYZ'' 10 empty_world =
       (Inl (ValueError ''SIGNATURE environment variable is not set''), empty_world)
   \<and> sell (fixed_reader [(''CASH'', 10000)] 0) (example_env\<lparr>cfg_signature := None\<rparr>)
       ''XYZ'' 10 empty_world =
       (Inl (ValueError ''SIGNATURE environment variable is not set''), empty_world)"
proof -
  have h: "cfg_signature (example_env\<lparr>cfg_signature := None\<rparr>) = None" by simp
  from missing_signature_raises [OF h] h show ?thesis by blast
qed

text \<open>
  C8, as the claim states it, fails when \<open>SIGNATURE\<close> is absent: a \<open>buy\<close> of 0 shares then
  raises ValueError and returns no error dictionary at all.
\<close>

theorem buy_nonpositive_without_signature:
  "fst (buy (fixed_reader [(''CASH'', 10000)] 0) (example_env\<lparr>cfg_signature := None\<rparr>)
          ''XYZ'' 0 empty_world)
     = Inl (ValueError ''SIGNATURE environment variable is not set'')
   \<and> fst (buy (fixed_reader [(''CASH'', 10000)] 0) (example_env\<lparr>cfg_signature := None\<rparr>)
          ''XYZ'' 0 empty_world)
     \<noteq> Inr (ErrorResult AmountMustBePositive ''XYZ'' (Some ''2025-10-01''))"
  by (simp add: buy_def prepare_def)

text \<open>
  C8, amended. A \<open>buy\<close> with \<open>amount \<le> 0\<close> never contacts the gateway and appends no
  record: the world is left exactly as it was. With \<open>SIGNATURE\<close> configured it returns the
  error "Amount must be positive" with the symbol and the date; with \<open>SIGNATURE\<close> absent
  it raises ValueError.
\<close>

theorem buy_nonpositive_amount:
  assumes "amount \<le> 0"
  shows "buy glp en symbol amount w =
           (case cfg_signature en of
              None \<Rightarrow> (Inl (ValueError ''SIGNATURE environment variable is not set''), w)
            | Some signature \<Rightarrow>
                (Inr (ErrorResult AmountMustBePositive symbol (cfg_today_date en)), w))"
  using assms by (simp add: buy_def prepare_def split: option.splits)

text \<open>The hypothesis of the amended C8 at a concrete request: buying \<open>-5\<close> shares.\<close>

theorem buy_nonpositive_amount_witness:
  "(-5::int) \<le> 0
   \<and> buy (fixed_reader [(''CASH'', 10000)] 0) example_env ''XYZ'' (-5) empty_world =
       (Inr (ErrorResult AmountMustBePositive ''XYZ'' (Some ''2025-10-01'')), empty_world)"
proof -
  have h: "(-5::int) \<le> 0" by simp
  from buy_nonpositive_amount [OF h, of "fixed_reader [(''CASH'', 10000)] 0" example_env
      "''XYZ''" empty_world]
  show ?thesis by (simp add: example_env_def)
qed

section \<open>Settlement\<close>

text \<open>On every successful \<open>buy\<close> or \<open>sell\<close> the price of the settlement is the fill price
  that \<open>_execute_ib_order\<close> stored: the average fill price when positive, else 0. The
  reference price is never used.\<close>

lemma settlement_price:
  assumes "run_request glp en rq w = (Inr (Updated p er ap), w')"
    and "ib_order en = Returns t"
  shows "ap = (if trade_avgFillPrice t > 0 then trade_avgFillPrice t else 0)"
  using assms
  by (cases rq)
     (auto simp: tool_defs Let_def
        split: option.splits if_splits price_lookup.splits outcome.splits)

text \<open>
  C1. The gateway reports the order as submitted with an average fill price of 0. The
  reference price is 50. \<open>_execute_ib_order\<close> then stores \<open>fill_price = 0\<close> in its result,
  the key is present, and \<open>execution_result.get("fill_price", this_symbol_price)\<close> gives 0
  and not the reference price: the \<open>buy\<close> of 10 shares leaves the cash at 10000 and the
  \<open>sell\<close> of 4 shares leaves it at 9500, each with \<open>actual_price = 0\<close>.
\<close>

theorem zero_fill_price_settles_at_zero:
  "fst (buy (fixed_reader [(''CASH'', 10000)] 0)
          (example_env\<lparr>ib_order := Returns \<lparr>trade_status = ''Submitted'',
             trade_avgFillPrice = 0, trade_commission = 0, trade_orderId = 7\<rparr>\<rparr>)
          ''XYZ'' 10 empty_world)
     = Inr (Updated [(''CASH'', 10000), (''XYZ'', 10)]
              (ExecSuccess 7 ''XYZ'' ''BUY'' 10 ''Submitted'' 0 0) 0)
   \<and> fst (sell (fixed_reader [(''CASH'', 9500), (''XYZ'', 10)] 1)
          (example_env\<lparr>ib_order := Returns \<lparr>trade_status = ''Submitted'',
             trade_avgFillPrice = 0, trade_commission = 0, trade_orderId = 8\<rparr>\<rparr>)
          ''XYZ'' 4 empty_world)
     = Inr (Updated [(''CASH'', 9500), (''XYZ'', 6)]
              (ExecSuccess 8 ''XYZ'' ''SELL'' 4 ''Submitted'' 0 0) 0)"
  by (simp add: tool_defs example_defs Let_def dict_get_def dict_contains_def py_int_def)

text \<open>
  C7. From the position \<open>{CASH: 9500, XYZ: 10}\<close> at id 1, every successful \<open>sell\<close> of 4
  shares of \<open>XYZ\<close> that the gateway fills at 55 returns the position
  \<open>{CASH: 9720, XYZ: 6}\<close> with \<open>actual_price = 55\<close>, and appends one record with id 2 that
  carries this position. The commission that the gateway reports is recorded in the
  record and is not deducted from the cash, whatever it is.
\<close>

theorem sell_scenario:
  assumes "sell glp en ''XYZ'' 4 w = (Inr (Updated p er ap), w')"
    and "cfg_signature en = Some sg"
    and "glp (cfg_today_date en) sg (files w) = Returns ([(''CASH'', 9500), (''XYZ'', 10)], 1)"
    and "ib_order en = Returns t" and "trade_avgFillPrice t = 55"
  shows "p = [(''CASH'', 9720), (''XYZ'', 6)] \<and> ap = 55
       \<and> files w' sg = files w sg @
           [\<lparr>rec_date = cfg_today_date en, rec_id = 2,
             rec_this_action = \<lparr>ta_action = ''sell'', ta_symbol = ''XYZ'', ta_amount = 4,
               ta_ib_order_id = Some (trade_orderId t), ta_fill_price = 55,
               ta_commission = trade_commission t\<rparr>,
             rec_positions = [(''CASH'', 9720), (''XYZ'', 6)],
             rec_ib_execution = ExecSuccess (trade_orderId t) ''XYZ'' ''SELL'' 4
               (trade_status t) 55 (trade_commission t)\<rparr>]"
  using assms
  by (auto simp: tool_defs Let_def dict_get_def dict_contains_def
      split: option.splits if_splits price_lookup.splits outcome.splits)

text \<open>The hypotheses of C7 hold in the example surroundings, where the sale succeeds.\<close>

theorem sell_scenario_witness:
  "fst (sell (fixed_reader [(''CASH'', 9500), (''XYZ'', 10)] 1) example_env ''XYZ'' 4
          empty_world)
     = Inr (Updated [(''CASH'', 9720), (''XYZ'', 6)]
              (ExecSuccess 7 ''XYZ'' ''SELL'' 4 ''Filled'' 55 1) 55)
   \<and> map rec_id (files (snd (sell (fixed_reader [(''CASH'', 9500), (''XYZ'', 10)] 1)
         example_env ''XYZ'' 4 empty_world)) ''agent'') = [2]"
proof -
  let ?s = "sell (fixed_reader [(''CASH'', 9500), (''XYZ'', 10)] 1) example_env ''XYZ'' 4
              empty_world"
  have ev: "?s = (Inr (Updated [(''CASH'', 9720), (''XYZ'', 6)]
              (ExecSuccess 7 ''XYZ'' ''SELL'' 4 ''Filled'' 55 1) 55), snd ?s)"
    by (simp add: prod_eq_iff tool_defs example_defs Let_def dict_get_def dict_contains_def
        py_int_def)
  have f: "fst ?s = Inr (Updated [(''CASH'', 9720), (''XYZ'', 6)]
              (ExecSuccess 7 ''XYZ'' ''SELL'' 4 ''Filled'' 55 1) 55)"
    by (subst ev) simp
  have h2: "cfg_signature example_env = Some ''agent''"
    by (simp add: example_env_def)
  have h3: "fixed_reader [(''CASH'', 9500), (''XYZ'', 10)] 1 (cfg_today_date example_env)
              ''agent'' (files empty_world) = Returns ([(''CASH'', 9500), (''XYZ'', 10)], 1)"
    by (simp add: fixed_reader_def)
  have h4: "ib_order example_env = Returns \<lparr>trade_status = ''Filled'',
              trade_avgFillPrice = 55, trade_commission = 1, trade_orderId = 7\<rparr>"
    by (simp add: example_env_def order_filled_at_def)
  from sell_scenario [OF ev h2 h3 h4]
  have "map rec_id (files (snd ?s) ''agent'') = [2]"
    by (simp add: empty_world_def)
  with f show ?thesis by simp
qed

section \<open>Frame of a trade\<close>

text \<open>
  C10. When a \<open>buy\<close> or \<open>sell\<close> of \<open>symbol\<close> succeeds, the position it returns agrees with the
  position that was read on every key other than \<open>CASH\<close> and \<open>symbol\<close> (same presence,
  same quantity), and this position is the snapshot of the one record that the call
  appends to the file of the identity.
\<close>

theorem trade_frame:
  assumes "run_request glp en rq w = (Inr (Updated p er ap), w')"
    and "cfg_signature en = Some sg"
    and "glp (cfg_today_date en) sg (files w) = Returns (cur, cid)"
    and "k \<noteq> ''CASH''" and "k \<noteq> request_symbol rq"
  shows "map_of p k = map_of cur k
       \<and> files w' sg = files w sg @ [last (files w' sg)]
       \<and> rec_positions (last (files w' sg)) = p"
proof -
  let ?w1 = "log_event ConnectOk w"
  obtain w2 where rd: "read_latest glp en sg ?w1 = (Returns (cur, cid), w2)"
    and fw: "files w2 = files w"
    using assms(3) by (simp add: step_defs Let_def)
  show ?thesis
  proof (cases rq)
    case (Buy sy a)
    with assms(1) have b: "buy glp en sy a w = (Inr (Updated p er ap), w')" by simp
    obtain st w1 where pr: "prepare en sy a w = (st, w1)" by (cases "prepare en sy a w")
    show ?thesis
    proof (cases st)
      case (Inl r)
      with b pr prepare_Inl_not_updated [of en sy a w r w1 p er ap] show ?thesis
        by (simp add: buy_def)
    next
      case (Inr sg')
      with pr assms(2) have "sg' = sg" "w1 = ?w1"
        using prepare_Inr by fastforce+
      with b pr Inr have "buy_try glp en sg sy a ?w1 = (Updated p er ap, w')"
        by (simp add: buy_def split: prod.splits)
      with rd have "buy_settle en sg sy a cur cid w2 = (Updated p er ap, w')"
        by (simp add: buy_try_def)
      from buy_settle_frame [OF this, of k] fw assms(4,5) Buy show ?thesis by simp
    qed
  next
    case (Sell sy a)
    with assms(1) have b: "sell glp en sy a w = (Inr (Updated p er ap), w')" by simp
    obtain st w1 where pr: "prepare en sy a w = (st, w1)" by (cases "prepare en sy a w")
    show ?thesis
    proof (cases st)
      case (Inl r)
      with b pr prepare_Inl_not_updated [of en sy a w r w1 p er ap] show ?thesis
        by (simp add: sell_def)
    next
      case (Inr sg')
      with pr assms(2) have "sg' = sg" "w1 = ?w1"
        using prepare_Inr by fastforce+
      with b pr Inr have "sell_try glp en sg sy a ?w1 = (Updated p er ap, w')"
        by (simp add: sell_def split: prod.splits)
      with rd have "sell_settle en sg sy a cur cid w2 = (Updated p er ap, w')"
        by (simp add: sell_try_def)
      from sell_settle_frame [OF this, of k] fw assms(4,5) Sell show ?thesis by simp
    qed
  qed
qed

text \<open>The hypotheses of C10 at a concrete request: selling 4 of 10 \<open>XYZ\<close> while 3 shares
  of \<open>ABC\<close> are held; the entry of \<open>ABC\<close> is the same before and after.\<close>

theorem trade_frame_witness:
  "fst (run_request (fixed_reader [(''CASH'', 9500), (''XYZ'', 10), (''ABC'', 3)] 1)
          example_env (Sell ''XYZ'' 4) empty_world)
     = Inr (Updated [(''CASH'', 9720), (''XYZ'', 6), (''ABC'', 3)]
              (ExecSuccess 7 ''XYZ'' ''SELL'' 4 ''Filled'' 55 1) 55)
   \<and> map_of ([(''CASH'', 9720), (''XYZ'', 6), (''ABC'', 3)] :: position) ''ABC''
     = map_of ([(''CASH'', 9500), (''XYZ'', 10), (''ABC'', 3)] :: position) ''ABC''
   \<and> rec_positions (last (files (snd (run_request
          (fixed_reader [(''CASH'', 9500), (''XYZ'', 10), (''ABC'', 3)] 1)
          example_env (Sell ''XYZ'' 4) empty_world)) ''agent''))
     = [(''CASH'', 9720), (''XYZ'', 6), (''ABC'', 3)]"
proof -
  let ?r = "run_request (fixed_reader [(''CASH'', 9500), (''XYZ'', 10), (''ABC'', 3)] 1)
              example_env (Sell ''XYZ'' 4) empty_world"
  have ev: "?r = (Inr (Updated [(''CASH'', 9720), (''XYZ'', 6), (''ABC'', 3)]
              (ExecSuccess 7 ''XYZ'' ''SELL'' 4 ''Filled'' 55 1) 55), snd ?r)"
    by (simp add: prod_eq_iff tool_defs example_defs Let_def dict_get_def dict_contains_def
        py_int_def)
  have f: "fst ?r = Inr (Updated [(''CASH'', 9720), (''XYZ'', 6), (''ABC'', 3)]
              (ExecSuccess 7 ''XYZ'' ''SELL'' 4 ''Filled'' 55 1) 55)"
    by (subst ev) simp
  have h2: "cfg_signature example_env = Some ''agent''"
    by (simp add: example_env_def)
  have h3: "fixed_reader [(''CASH'', 9500), (''XYZ'', 10), (''ABC'', 3)] 1
              (cfg_today_date example_env) ''agent'' (files empty_world)
            = Returns ([(''CASH'', 9500), (''XYZ'', 10), (''ABC'', 3)], 1)"
    by (simp add: fixed_reader_def)
  have h4: "''ABC'' \<noteq> ''CASH''" by simp
  have h5: "''ABC'' \<noteq> request_symbol (Sell ''XYZ'' 4)" by simp
  from trade_frame [OF ev h2 h3 h4 h5] f show ?thesis by blast
qed

section \<open>Aborts\<close>

text \<open>
  C2, as the claim states it, fails: selling 100 shares of \<open>XYZ\<close> when the local position
  holds 6 returns the error "Insufficient shares (local record)", but only after the
  gateway was connected; the session is then closed again.
\<close>

theorem sell_insufficient_shares_contacts_gateway:
  "fst (sell (fixed_reader [(''CASH'', 9720), (''XYZ'', 6)] 2) example_env ''XYZ'' 100
          empty_world)
     = Inr (ErrorResult (InsufficientSharesLocal 6 100) ''XYZ'' (Some ''2025-10-01''))
   \<and> filter is_gateway_event
       (trace (snd (sell (fixed_reader [(''CASH'', 9720), (''XYZ'', 6)] 2) example_env
          ''XYZ'' 100 empty_world)))
     = [ConnectOk, Disconnect]"
  by (simp add: tool_defs example_defs Let_def dict_get_def dict_contains_def)

text \<open>
  C2, amended. A \<open>sell\<close> of a positive amount, with the identity configured and the
  gateway reachable, that reads a local position with no entry for \<open>symbol\<close> or with fewer
  than \<open>amount\<close> shares, returns the error "No position for ..." or "Insufficient shares
  (local record)". It connects to the gateway, reads the position under the lock and
  disconnects: no remote position is queried, no order is submitted, no record is
  appended, and the files and the flag are as before.
\<close>

theorem sell_insufficient_shares_aborts:
  assumes "cfg_signature en = Some sg" and "0 < amount" and "ib_connect en = None"
    and "glp (cfg_today_date en) sg (files w) = Returns (cur, cid)"
    and "\<not> dict_contains cur symbol \<or> dict_get cur symbol 0 < of_int amount"
  shows "sell glp en symbol amount w =
           (Inr (ErrorResult
                   (if dict_contains cur symbol
                    then InsufficientSharesLocal (dict_get cur symbol 0) amount
                    else NoPosition)
                   symbol (cfg_today_date en)),
            w\<lparr>trace := trace w @
                 [ConnectOk, LockAcquire sg, ReadLatest sg, LockRelease sg, Disconnect]\<rparr>)"
  using assms
  by (auto simp: tool_defs Let_def)

text \<open>The hypotheses of the amended C2 at a concrete request: selling 100 of 6 shares.\<close>

theorem sell_insufficient_shares_aborts_witness:
  "sell (fixed_reader [(''CASH'', 9720), (''XYZ'', 6)] 2) example_env ''XYZ'' 100 empty_world
     = (Inr (ErrorResult (InsufficientSharesLocal 6 100) ''XYZ'' (Some ''2025-10-01'')),
        empty_world\<lparr>trace := [ConnectOk, LockAcquire ''agent'', ReadLatest ''agent'',
           LockRelease ''agent'', Disconnect]\<rparr>)"
proof -
  have h1: "cfg_signature example_env = Some ''agent''" by (simp add: example_env_def)
  have h2: "(0::int) < 100" by simp
  have h3: "ib_connect example_env = None" by (simp add: example_env_def)
  have h4: "fixed_reader [(''CASH'', 9720), (''XYZ'', 6)] 2 (cfg_today_date example_env)
              ''agent'' (files empty_world) = Returns ([(''CASH'', 9720), (''XYZ'', 6)], 2)"
    by (simp add: fixed_reader_def)
  have h5: "\<not> dict_contains [(''CASH'', 9720), (''XYZ'', 6)] ''XYZ''
            \<or> dict_get [(''CASH'', 9720), (''XYZ'', 6)] ''XYZ'' 0 < of_int 100"
    by (simp add: dict_get_def)
  from sell_insufficient_shares_aborts
    [where glp = "fixed_reader [(''CASH'', 9720), (''XYZ'', 6)] 2" and en = example_env
       and w = empty_world and symbol = "''XYZ''", OF h1 h2 h3 h4 h5]
  show ?thesis
    by (simp add: dict_get_def dict_contains_def example_env_def empty_world_def)
qed

text \<open>
  C5, as the claim states it, fails: when the position file cannot be opened after the
  gateway has filled the order, \<open>buy\<close> returns the dictionary of the general handler,
  "Unexpected error: ..." with the symbol and the date, which has no key
  \<open>execution_details\<close>.
\<close>

theorem append_failure_without_execution_details:
  "fst (buy (fixed_reader [(''CASH'', 10000)] 0)
          (example_env\<lparr>ledger_open := Some ''No such file or directory''\<rparr>)
          ''XYZ'' 10 empty_world)
     = Inr (ErrorResult (UnexpectedError ''No such file or directory'') ''XYZ''
              (Some ''2025-10-01''))
   \<and> execution_details (ErrorResult (UnexpectedError ''No such file or directory'') ''XYZ''
        (Some ''2025-10-01'')) = None
   \<and> trace (snd (buy (fixed_reader [(''CASH'', 10000)] 0)
          (example_env\<lparr>ledger_open := Some ''No such file or directory''\<rparr>)
          ''XYZ'' 10 empty_world))
     = [ConnectOk, LockAcquire ''agent'', ReadLatest ''agent'', LockRelease ''agent'',
        OrderRequest ''XYZ'' 10 ''BUY'', LockAcquire ''agent'', LockRelease ''agent'',
        Disconnect]"
  by (simp add: tool_defs example_defs Let_def dict_get_def dict_contains_def)

text \<open>
  C5, amended. When the gateway has accepted the order of a \<open>buy\<close> or a \<open>sell\<close> and the
  append to the position file then raises \<open>e\<close>, the operation releases the lock,
  disconnects and returns the general error "Unexpected error: e" with the symbol and the
  date only; the execution details are not part of the result. No record is written and
  the flag is not set.
\<close>

theorem append_failure_is_unexpected_error:
  assumes "cfg_signature en = Some sg" and "0 < amount" and "ib_connect en = None"
    and "glp (cfg_today_date en) sg (files w) = Returns (cur, cid)"
    and "open_price en = Price ref_price"
    and "ib_order en = Returns t"
    and "trade_status t \<in> {''Filled'', ''PreSubmitted'', ''Submitted''}"
    and "ledger_open en = Some e"
  shows "(ref_price * of_int amount \<le> dict_get cur ''CASH'' 0 \<longrightarrow>
            buy glp en symbol amount w =
              (Inr (ErrorResult (UnexpectedError e) symbol (cfg_today_date en)),
               w\<lparr>trace := trace w @
                 [ConnectOk, LockAcquire sg, ReadLatest sg, LockRelease sg,
                  OrderRequest symbol amount ''BUY'', LockAcquire sg, LockRelease sg,
                  Disconnect]\<rparr>))
       \<and> (dict_contains cur symbol \<and> of_int amount \<le> dict_get cur symbol 0
            \<and> ib_positions en = Returns ps \<and> amount \<le> find_ib_position ps symbol \<longrightarrow>
            sell glp en symbol amount w =
              (Inr (ErrorResult (UnexpectedError e) symbol (cfg_today_date en)),
               w\<lparr>trace := trace w @
                 [ConnectOk, LockAcquire sg, ReadLatest sg, LockRelease sg, QueryPositions,
                  OrderRequest symbol amount ''SELL'', LockAcquire sg, LockRelease sg,
                  Disconnect]\<rparr>))
       \<and> execution_details (ErrorResult (UnexpectedError e) symbol (cfg_today_date en)) = None"
  using assms
  by (auto simp: tool_defs Let_def)

text \<open>The hypotheses of the amended C5 at concrete requests: a \<open>buy\<close> and a \<open>sell\<close> of 4
  shares of \<open>XYZ\<close> whose order is filled while the position file cannot be opened.\<close>

theorem append_failure_is_unexpected_error_witness:
  "buy (fixed_reader [(''CASH'', 9500), (''XYZ'', 10)] 1)
       (example_env\<lparr>ledger_open := Some ''No such file or directory''\<rparr>) ''XYZ'' 4 empty_world
     = (Inr (ErrorResult (UnexpectedError ''No such file or directory'') ''XYZ''
               (Some ''2025-10-01'')),
        empty_world\<lparr>trace := [ConnectOk, LockAcquire ''agent'', ReadLatest ''agent'',
           LockRelease ''agent'', OrderRequest ''XYZ'' 4 ''BUY'', LockAcquire ''agent'',
           LockRelease ''agent'', Disconnect]\<rparr>)
   \<and> sell (fixed_reader [(''CASH'', 9500), (''XYZ'', 10)] 1)
       (example_env\<lparr>ledger_open := Some ''No such file or directory''\<rparr>) ''XYZ'' 4 empty_world
     = (Inr (ErrorResult (UnexpectedError ''No such file or directory'') ''XYZ''
               (Some ''2025-10-01'')),
        empty_world\<lparr>trace := [ConnectOk, LockAcquire ''agent'', ReadLatest ''agent'',
           LockRelease ''agent'', QueryPositions, OrderRequest ''XYZ'' 4 ''SELL'',
           LockAcquire ''agent'', LockRelease ''agent'', Disconnect]\<rparr>)"
proof -
  let ?en = "example_env\<lparr>ledger_open := Some ''No such file or directory''\<rparr>"
  let ?ps = "[\<lparr>pos_symbol = Some ''XYZ'', pos_position = 10, pos_marketPrice = None,
               pos_marketValue = None, pos_avgCost = Some 50\<rparr>]"
  have h1: "cfg_signature ?en = Some ''agent''" by (simp add: example_env_def)
  have h2: "(0::int) < 4" by simp
  have h3: "ib_connect ?en = None" by (simp add: example_env_def)
  have h4: "fixed_reader [(''CASH'', 9500), (''XYZ'', 10)] 1 (cfg_today_date ?en)
              ''agent'' (files empty_world) = Returns ([(''CASH'', 9500), (''XYZ'', 10)], 1)"
    by (simp add: fixed_reader_def)
  have h5: "open_price ?en = Price 50" by (simp add: example_env_def)
  have h6: "ib_order ?en = Returns \<lparr>trade_status = ''Filled'', trade_avgFillPrice = 55,
              trade_commission = 1, trade_orderId = 7\<rparr>"
    by (simp add: example_env_def order_filled_at_def)
  have h7: "trade_status \<lparr>trade_status = ''Filled'', trade_avgFillPrice = 55,
              trade_commission = 1, trade_orderId = 7\<rparr>
            \<in> {''Filled'', ''PreSubmitted'', ''Submitted''}"
    by simp
  have h8: "ledger_open ?en = Some ''No such file or directory''" by simp
  have p1: "50 * of_int 4 \<le> dict_get [(''CASH'', 9500), (''XYZ'', 10)] ''CASH'' 0"
    by (simp add: dict_get_def)
  have p2: "dict_contains [(''CASH'', 9500), (''XYZ'', 10)] ''XYZ''
            \<and> of_int 4 \<le> dict_get [(''CASH'', 9500), (''XYZ'', 10)] ''XYZ'' 0
            \<and> ib_positions ?en = Returns ?ps \<and> 4 \<le> find_ib_position ?ps ''XYZ''"
    by (simp add: dict_get_def dict_contains_def example_env_def py_int_def)
  have d: "cfg_today_date ?en = Some ''2025-10-01''" by (simp add: example_env_def)
  have t: "trace empty_world = []" by (simp add: empty_world_def)
  from append_failure_is_unexpected_error
    [where glp = "fixed_reader [(''CASH'', 9500), (''XYZ'', 10)] 1" and en = ?en
       and w = empty_world and symbol = "''XYZ''" and ps = ?ps,
     OF h1 h2 h3 h4 h5 h6 h7 h8] p1 p2
  show ?thesis unfolding d t by simp
qed

section \<open>The gateway session\<close>

lemma session_events_simps:
  "session_events [] = []"
  "session_events (e # es) =
     (if e = ConnectOk \<or> e = Disconnect then e # session_events es else session_events es)"
  "session_events (xs @ ys) = session_events xs @ session_events ys"
  by (simp_all add: session_events_def)

lemma commit_session:
  "session_events (trace (snd (commit en sg act sy a cid np er ap w))) =
     session_events (trace w) @ [Disconnect]"
  by (simp add: commit_def step_defs session_events_def Let_def split: option.splits)

lemma buy_settle_session:
  "session_events (trace (snd (buy_settle en sg sy a cur cid w))) =
     session_events (trace w) @ [Disconnect]"
  by (simp add: buy_settle_def Let_def commit_session split: price_lookup.splits prod.splits)
     (auto simp: step_defs session_events_def Let_def split: outcome.splits)

lemma sell_settle_session:
  "session_events (trace (snd (sell_settle en sg sy a cur cid w))) =
     session_events (trace w) @ [Disconnect]"
  by (simp add: sell_settle_def Let_def commit_session
        split: price_lookup.splits prod.splits outcome.splits)
     (auto simp: step_defs session_events_def Let_def split: outcome.splits)

text \<open>\<open>buy\<close> and \<open>sell\<close> close the session they opened, once, on every path.\<close>

lemma buy_session:
  "session_events (trace (snd (buy glp en sy a w))) =
     session_events (trace w) @
       (if cfg_signature en \<noteq> None \<and> 0 < a \<and> ib_connect en = None
        then [ConnectOk, Disconnect] else [])"
proof -
  have "session_events (trace (snd (buy_try glp en sg sy a w1))) =
          session_events (trace w1) @ [Disconnect]" for sg w1
    by (auto simp: buy_try_def read_latest_def unexpected_def disconnect_def
        position_lock_enter_def position_lock_exit_def log_event_def Let_def
        buy_settle_session session_events_simps split: outcome.splits)
  then show ?thesis
    by (auto simp: buy_def prepare_def connect_ib_def log_event_def case_prod_beta
        session_events_simps split: option.splits)
qed

lemma sell_session:
  "session_events (trace (snd (sell glp en sy a w))) =
     session_events (trace w) @
       (if cfg_signature en \<noteq> None \<and> 0 < a \<and> ib_connect en = None
        then [ConnectOk, Disconnect] else [])"
proof -
  have "session_events (trace (snd (sell_try glp en sg sy a w1))) =
          session_events (trace w1) @ [Disconnect]" for sg w1
    by (auto simp: sell_try_def read_latest_def unexpected_def disconnect_def
        position_lock_enter_def position_lock_exit_def log_event_def Let_def
        sell_settle_session session_events_simps split: outcome.splits)
  then show ?thesis
    by (auto simp: sell_def prepare_def connect_ib_def log_event_def case_prod_beta
        session_events_simps split: option.splits)
qed

text \<open>
  C4. \<open>get_ib_account_summary\<close> connects, and \<open>ib.accountValues()\<close> then raises. The
  handler returns the error dictionary and does not disconnect: the session that was
  opened is never closed. (\<open>buy\<close> and \<open>sell\<close> disconnect in their handlers, see
  \<open>buy_session\<close> and \<open>sell_session\<close>.)
\<close>

theorem account_summary_leaves_session_open:
  "get_ib_account_summary (example_env\<lparr>ib_account_values := Raises ''Not connected''\<rparr>)
     empty_world
   = (SummaryError ''Not connected'',
      empty_world\<lparr>trace := [ConnectOk, QueryAccountValues]\<rparr>)
   \<and> session_events (trace (snd (get_ib_account_summary
        (example_env\<lparr>ib_account_values := Raises ''Not connected''\<rparr>) empty_world)))
     = [ConnectOk]"
  by (simp add: get_ib_account_summary_def step_defs example_defs Let_def
      session_events_def)

section \<open>What a request does to the position files\<close>

lemma commit_files:
  "files (snd (commit en sg act sy a cid np er ap w)) = files w \<or>
   appended sg cid w (snd (commit en sg act sy a cid np er ap w))"
  by (auto simp: commit_def step_defs Let_def appended_def split: option.splits)

lemma appended_trace [simp]:
  "appended sg cid (w\<lparr>trace := t\<rparr>) w' = appended sg cid w w'"
  by (simp add: appended_def)

lemma buy_settle_files:
  "files (snd (buy_settle en sg sy a cur cid w)) = files w \<or>
   appended sg cid w (snd (buy_settle en sg sy a cur cid w))"
  using commit_files [of en sg "''buy''" sy a cid _ _ _
      "w\<lparr>trace := trace w @ [OrderRequest sy a ''BUY'']\<rparr>"]
  by (auto simp: buy_settle_def Let_def unexpected_def disconnect_def log_event_def
      execute_ib_order_def split: price_lookup.splits outcome.splits)

lemma sell_settle_files:
  "files (snd (sell_settle en sg sy a cur cid w)) = files w \<or>
   appended sg cid w (snd (sell_settle en sg sy a cur cid w))"
  using commit_files [of en sg "''sell''" sy a cid _ _ _
      "w\<lparr>trace := trace w @ [QueryPositions, OrderRequest sy a ''SELL'']\<rparr>"]
  by (auto simp: sell_settle_def Let_def unexpected_def disconnect_def log_event_def
      execute_ib_order_def get_ib_position_def split: price_lookup.splits outcome.splits)

text \<open>A request leaves the files as they are, or appends to the file of its identity one
  record whose id is one more than the id that the reader returned.\<close>

lemma run_request_files:
  "files (snd (run_request glp en rq w)) = files w \<or>
   (\<exists>sg cur cid. cfg_signature en = Some sg \<and>
      glp (cfg_today_date en) sg (files w) = Returns (cur, cid) \<and>
      appended sg cid w (snd (run_request glp en rq w)))"
proof (cases rq)
  case (Buy sy a)
  show ?thesis
    using buy_settle_files [of en _ sy a _ _
        "w\<lparr>trace := trace w @ [ConnectOk, LockAcquire _, ReadLatest _, LockRelease _]\<rparr>"]
    by (auto simp: Buy buy_def prepare_def buy_try_def read_latest_def connect_ib_def
        position_lock_enter_def position_lock_exit_def log_event_def unexpected_def
        disconnect_def Let_def case_prod_beta split: option.splits outcome.splits)
next
  case (Sell sy a)
  show ?thesis
    using sell_settle_files [of en _ sy a _ _
        "w\<lparr>trace := trace w @ [ConnectOk, LockAcquire _, ReadLatest _, LockRelease _]\<rparr>"]
    by (auto simp: Sell sell_def prepare_def sell_try_def read_latest_def connect_ib_def
        position_lock_enter_def position_lock_exit_def log_event_def unexpected_def
        disconnect_def Let_def case_prod_beta split: option.splits outcome.splits)
qed

section \<open>Sequence ids\<close>

lemma latest_record_Max:
  "rs \<noteq> [] \<Longrightarrow> \<exists>r. latest_record rs = Some r \<and> rec_id r = Max (rec_id ` set rs)"
proof (induction rs)
  case Nil
  then show ?case by simp
next
  case (Cons x xs)
  show ?case
  proof (cases "xs = []")
    case True
    then show ?thesis by simp
  next
    case False
    with Cons.IH obtain r where r: "latest_record xs = Some r" "rec_id r = Max (rec_id ` set xs)"
      by blast
    from False have ne: "rec_id ` set xs \<noteq> {}" by simp
    have "Max (rec_id ` set (x # xs)) = max (rec_id x) (Max (rec_id ` set xs))"
      using ne by simp
    with r show ?thesis by (auto simp: max_def)
  qed
qed

lemma ids_consecutive_Max:
  assumes "ids_consecutive rs" and "rs \<noteq> []"
  shows "Max (rec_id ` set rs) = int (length rs)"
proof -
  have "rec_id ` set rs = set (map rec_id rs)" by simp
  also have "\<dots> = {1 .. int (length rs)}" using assms(1) by (simp add: ids_consecutive_def)
  finally have "rec_id ` set rs = {1 .. int (length rs)}" .
  moreover have "1 \<le> int (length rs)" using assms(2) by (cases rs) simp_all
  then have "Max {1 .. int (length rs)} = int (length rs)" by (intro Max_eqI) auto
  ultimately show ?thesis by simp
qed

text \<open>On a file whose ids are 1, ..., n the reader returns the id n.\<close>

lemma get_latest_position_id:
  assumes "ids_consecutive (fs sg)"
    and "get_latest_position c d sg fs = Returns (cur, cid)"
  shows "cid = int (length (fs sg))"
proof (cases "fs sg = []")
  case True
  with assms(2) show ?thesis by (simp add: get_latest_position_def)
next
  case False
  then obtain r where "latest_record (fs sg) = Some r" "rec_id r = Max (rec_id ` set (fs sg))"
    using latest_record_Max by blast
  with assms False show ?thesis
    by (simp add: get_latest_position_def ids_consecutive_Max)
qed

lemma ids_consecutive_snoc:
  assumes "ids_consecutive rs" and "rec_id r = int (length rs) + 1"
  shows "ids_consecutive (rs @ [r])"
proof -
  have "[1 .. 1 + int (length rs)] = [1 .. int (length rs)] @ [1 + int (length rs)]"
    by (simp add: upto_rec2)
  with assms show ?thesis by (simp add: ids_consecutive_def)
qed

lemma run_request_ids:
  assumes "ids_consecutive (files w s)"
  shows "ids_consecutive (files (snd (run_request (get_latest_position c) en rq w)) s)
       \<and> (\<exists>new. files (snd (run_request (get_latest_position c) en rq w)) s = files w s @ new)"
proof -
  let ?w' = "snd (run_request (get_latest_position c) en rq w)"
  from run_request_files [of "get_latest_position c" en rq w]
  consider "files ?w' = files w"
    | sg cur cid where "cfg_signature en = Some sg"
        "get_latest_position c (cfg_today_date en) sg (files w) = Returns (cur, cid)"
        "appended sg cid w ?w'"
    by blast
  then show ?thesis
  proof cases
    case 1
    with assms show ?thesis by simp
  next
    case 2
    show ?thesis
    proof (cases "s = sg")
      case True
      with 2(2) assms have "cid = int (length (files w s))"
        using get_latest_position_id by blast
      with 2(3) True assms show ?thesis
        by (metis appended_def fun_upd_same ids_consecutive_snoc)
    next
      case False
      with 2(3) have "files ?w' s = files w s"
        by (metis appended_def fun_upd_other)
      with assms show ?thesis by simp
    qed
  qed
qed

text \<open>
  C6. Requests run one after another, with the latest position read as the
  specification describes. If the ids in the file of an identity are 1, 2, ..., n before
  a sequence of \<open>buy\<close> and \<open>sell\<close> requests (with any answers of the surroundings, for any
  identities), then after it the file is the old file followed by the records appended,
  and its ids are again 1, 2, ..., up to its length: each appended record carries the
  previous latest id plus 1, strictly increasing, with no gap and no duplicate.
\<close>

theorem sequence_ids_consecutive:
  assumes "ids_consecutive (files w s)"
  shows "ids_consecutive (files (run_requests (get_latest_position c) reqs w) s)
       \<and> (\<exists>new. files (run_requests (get_latest_position c) reqs w) s = files w s @ new)"
  using assms
proof (induction reqs arbitrary: w)
  case Nil
  then show ?case by simp
next
  case (Cons x reqs)
  obtain en rq where x: "x = (en, rq)" by (cases x)
  let ?w1 = "snd (run_request (get_latest_position c) en rq w)"
  from run_request_ids [OF Cons.prems, of c en rq]
  obtain new1 where a: "ids_consecutive (files ?w1 s)" "files ?w1 s = files w s @ new1"
    by blast
  from Cons.IH [OF a(1)] obtain new2 where
    b: "ids_consecutive (files (run_requests (get_latest_position c) reqs ?w1) s)"
       "files (run_requests (get_latest_position c) reqs ?w1) s = files ?w1 s @ new2"
    by blast
  with a x show ?case by simp
qed

text \<open>The hypothesis of C6 on the empty file, and the scenario of the specification: buy
  10 \<open>XYZ\<close> at 50, sell 4 at 55, then try to sell 100. Two records are written, with the
  ids 1 and 2, and the last snapshot is \<open>{CASH: 9720, XYZ: 6}\<close>.\<close>

theorem sequence_ids_consecutive_witness:
  "ids_consecutive (files empty_world ''agent'')
   \<and> ids_consecutive (files (run_requests (get_latest_position 10000)
        [(example_env\<lparr>ib_order := order_filled_at 50\<rparr>, Buy ''XYZ'' 10),
         (example_env, Sell ''XYZ'' 4),
         (example_env, Sell ''XYZ'' 100)] empty_world) ''agent'')
   \<and> map (\<lambda>r. (rec_id r, rec_positions r)) (files (run_requests (get_latest_position 10000)
        [(example_env\<lparr>ib_order := order_filled_at 50\<rparr>, Buy ''XYZ'' 10),
         (example_env, Sell ''XYZ'' 4),
         (example_env, Sell ''XYZ'' 100)] empty_world) ''agent'')
     = [(1, [(''CASH'', 9500), (''XYZ'', 10)]), (2, [(''CASH'', 9720), (''XYZ'', 6)])]"
proof -
  have h: "ids_consecutive (files empty_world ''agent'')"
    by (simp add: ids_consecutive_def empty_world_def)
  have ev: "map (\<lambda>r. (rec_id r, rec_positions r)) (files (run_requests (get_latest_position 10000)
        [(example_env\<lparr>ib_order := order_filled_at 50\<rparr>, Buy ''XYZ'' 10),
         (example_env, Sell ''XYZ'' 4),
         (example_env, Sell ''XYZ'' 100)] empty_world) ''agent'')
     = [(1, [(''CASH'', 9500), (''XYZ'', 10)]), (2, [(''CASH'', 9720), (''XYZ'', 6)])]"
    by (simp add: tool_defs example_defs get_latest_position_def Let_def dict_get_def
        dict_contains_def py_int_def)
  from sequence_ids_consecutive [OF h, of 10000] h ev show ?thesis by blast
qed

section \<open>Two requests at once\<close>

text \<open>
  C3. Two requests to buy 150 shares of \<open>XYZ\<close> at 50 reach an identity whose file is empty
  and whose cash is 10000: each alone is covered (7500), both together are not (15000).
  In the schedule of \<open>two_buys_interleaved\<close>, which the lock admits, the second request
  reads the position after the first has released the lock and before the first has
  appended. Both orders go to the gateway and both requests succeed; both records carry
  the id 1 and the position \<open>{CASH: 2500, XYZ: 150}\<close>, so the file shows one purchase
  where the gateway executed two. The lock is not held from the read to the append.
  Run one after the other, the second request is refused for insufficient cash.
\<close>

theorem interleaved_buys_double_spend:
  "fst (two_buys_interleaved (get_latest_position 10000)
          (example_env\<lparr>ib_order := order_filled_at 50\<rparr>) ''XYZ'' 150
          (example_env\<lparr>ib_order := order_filled_at 50\<rparr>) ''XYZ'' 150 empty_world)
     = Inr (Updated [(''CASH'', 2500), (''XYZ'', 150)]
              (ExecSuccess 7 ''XYZ'' ''BUY'' 150 ''Filled'' 50 1) 50)
   \<and> fst (snd (two_buys_interleaved (get_latest_position 10000)
          (example_env\<lparr>ib_order := order_filled_at 50\<rparr>) ''XYZ'' 150
          (example_env\<lparr>ib_order := order_filled_at 50\<rparr>) ''XYZ'' 150 empty_world))
     = Inr (Updated [(''CASH'', 2500), (''XYZ'', 150)]
              (ExecSuccess 7 ''XYZ'' ''BUY'' 150 ''Filled'' 50 1) 50)
   \<and> map (\<lambda>r. (rec_id r, rec_positions r))
       (files (snd (snd (two_buys_interleaved (get_latest_position 10000)
          (example_env\<lparr>ib_order := order_filled_at 50\<rparr>) ''XYZ'' 150
          (example_env\<lparr>ib_order := order_filled_at 50\<rparr>) ''XYZ'' 150 empty_world))) ''agent'')
     = [(1, [(''CASH'', 2500), (''XYZ'', 150)]), (1, [(''CASH'', 2500), (''XYZ'', 150)])]
   \<and> trace (snd (snd (two_buys_interleaved (get_latest_position 10000)
          (example_env\<lparr>ib_order := order_filled_at 50\<rparr>) ''XYZ'' 150
          (example_env\<lparr>ib_order := order_filled_at 50\<rparr>) ''XYZ'' 150 empty_world)))
     = [ConnectOk, LockAcquire ''agent'', ReadLatest ''agent'', LockRelease ''agent'',
        ConnectOk, LockAcquire ''agent'', ReadLatest ''agent'', LockRelease ''agent'',
        OrderRequest ''XYZ'' 150 ''BUY'',
        LockAcquire ''agent'', AppendRecord ''agent'', LockRelease ''agent'', Disconnect,
        OrderRequest ''XYZ'' 150 ''BUY'',
        LockAcquire ''agent'', AppendRecord ''agent'', LockRelease ''agent'', Disconnect]
   \<and> locks_respected [] (trace (snd (snd (two_buys_interleaved (get_latest_position 10000)
          (example_env\<lparr>ib_order := order_filled_at 50\<rparr>) ''XYZ'' 150
          (example_env\<lparr>ib_order := order_filled_at 50\<rparr>) ''XYZ'' 150 empty_world))))
   \<and> fst (buy (get_latest_position 10000)
          (example_env\<lparr>ib_order := order_filled_at 50\<rparr>) ''XYZ'' 150
          (snd (buy (get_latest_position 10000)
             (example_env\<lparr>ib_order := order_filled_at 50\<rparr>) ''XYZ'' 150 empty_world)))
     = Inr (ErrorResult (InsufficientCash 7500 2500) ''XYZ'' (Some ''2025-10-01''))"
  by (simp add: two_buys_interleaved_def buy_begin_def buy_finish_def tool_defs example_defs
      get_latest_position_def Let_def dict_get_def dict_contains_def)

end
